theory Spec2Isabelle
  imports Main "HOL-Library.Word" "HOL-Library.Sublist"
begin

section \<open>JavaScript values\<close>

text \<open>
  A JavaScript string is a sequence of UTF-16 code units, and \<^verbatim>\<open>length\<close> counts code
  units. ASCII literals are written with \<open>js\<close>; a code unit outside ASCII is written
  as its number.
\<close>

type_synonym code_unit = "16 word"
type_synonym jsstring = "code_unit list"

definition js :: "string \<Rightarrow> jsstring" where
  "js s = map of_char s"

text \<open>\<^verbatim>\<open>a || b\<close> on strings: the empty string is falsy.\<close>

definition or_else :: "jsstring \<Rightarrow> jsstring \<Rightarrow> jsstring" where
  "or_else a b = (if a = [] then b else a)"

text \<open>A property that may be \<^verbatim>\<open>undefined\<close>, \<^verbatim>\<open>null\<close> or a value.\<close>

datatype 'a js_opt = Undefined | Null | Defined 'a

text \<open>\<^verbatim>\<open>x || null\<close> for \<^verbatim>\<open>x: string | undefined\<close>.\<close>

definition or_null :: "jsstring option \<Rightarrow> jsstring js_opt" where
  "or_null x = (case x of None \<Rightarrow> Null | Some s \<Rightarrow> (if s = [] then Null else Defined s))"

text \<open>\<^verbatim>\<open>x || ''\<close> for \<^verbatim>\<open>x: string | null\<close>.\<close>

definition or_empty :: "jsstring option \<Rightarrow> jsstring" where
  "or_empty x = (case x of None \<Rightarrow> [] | Some s \<Rightarrow> s)"

text \<open>A \<^verbatim>\<open>string | null\<close> value as a property of a row object.\<close>

definition of_nullable :: "jsstring option \<Rightarrow> jsstring js_opt" where
  "of_nullable x = (case x of None \<Rightarrow> Null | Some s \<Rightarrow> Defined s)"

text \<open>\<^verbatim>\<open>obj?.field\<close> for a nullable object with a \<^verbatim>\<open>string | null\<close> field.\<close>

definition chain :: "('r \<Rightarrow> jsstring option) \<Rightarrow> 'r option \<Rightarrow> jsstring js_opt" where
  "chain field obj = (case obj of None \<Rightarrow> Undefined | Some r \<Rightarrow> of_nullable (field r))"

text \<open>\<^verbatim>\<open>s.split(sep)\<close> for a separator of one code unit, and \<^verbatim>\<open>Array.prototype.pop\<close>.\<close>

fun split_str :: "code_unit \<Rightarrow> jsstring \<Rightarrow> jsstring list" where
  "split_str sep [] = [[]]"
| "split_str sep (c # cs) =
     (if c = sep then [] # split_str sep cs
      else (case split_str sep cs of
              [] \<Rightarrow> [[c]]
            | w # ws \<Rightarrow> (c # w) # ws))"

definition pop :: "'a list \<Rightarrow> 'a option" where
  "pop xs = (if xs = [] then None else Some (last xs))"

text \<open>A value of type \<^verbatim>\<open>string | undefined\<close> inside a template literal.\<close>

definition template :: "jsstring option \<Rightarrow> jsstring" where
  "template x = (case x of None \<Rightarrow> js ''undefined'' | Some s \<Rightarrow> s)"

text \<open>
  An integer inside a template literal: its decimal digits, with a minus sign when
  negative (the rendering of every integer of magnitude below \<open>10^21\<close>, which covers
  the range of \<^verbatim>\<open>Date.now()\<close>).
\<close>

definition digit :: "nat \<Rightarrow> code_unit" where
  "digit d = 0x30 + of_nat d"

function dec_nat :: "nat \<Rightarrow> jsstring" where
  "dec_nat n = (if n < 10 then [digit n] else dec_nat (n div 10) @ [digit (n mod 10)])"
  by pat_completeness auto
termination
  by (relation "measure (\<lambda>n. n)") auto

definition number_toString :: "int \<Rightarrow> jsstring" where
  "number_toString n = (if n < 0 then js ''-'' @ dec_nat (nat (- n)) else dec_nat (nat n))"

text \<open>\<^verbatim>\<open>s.includes(sub)\<close>.\<close>

fun includes_str :: "jsstring \<Rightarrow> jsstring \<Rightarrow> bool" where
  "includes_str [] sub = (sub = [])"
| "includes_str (c # cs) sub = (prefix sub (c # cs) \<or> includes_str cs sub)"

text \<open>An \<^verbatim>\<open>Error\<close> object, or the error object of a backend reply: its message.\<close>

datatype js_error = Error (message: jsstring)

text \<open>
  What awaiting a call of the backend SDK gives: the promise resolves to
  \<^verbatim>\<open>{ data, error }\<close>, or it rejects.
\<close>

datatype 'a reply = Reply 'a "js_error option" | Rejected js_error

text \<open>The role of a profile: \<^verbatim>\<open>'developer' | 'company'\<close>.\<close>

datatype role_name = Developer | Company

section \<open>Form schema of the company profile\<close>

record form_data =
  name :: jsstring
  contact_email :: jsstring
  description :: "jsstring option"
  sector :: "jsstring option"

record issue =
  path :: jsstring
  issue_message :: jsstring

text \<open>\<^verbatim>\<open>z.string().min(2, msg)\<close>.\<close>

definition string_min :: "nat \<Rightarrow> jsstring \<Rightarrow> jsstring \<Rightarrow> jsstring \<Rightarrow> issue list" where
  "string_min n msg p s =
     (if length s < n then [\<lparr>path = p, issue_message = msg\<rparr>] else [])"

text \<open>
  \<^verbatim>\<open>z.string().email(msg)\<close>. The pattern that decides whether a string is an email
  address belongs to the validation library; it is the parameter \<open>is_email\<close>.
\<close>

definition string_email ::
  "(jsstring \<Rightarrow> bool) \<Rightarrow> jsstring \<Rightarrow> jsstring \<Rightarrow> jsstring \<Rightarrow> issue list" where
  "string_email is_email msg p s =
     (if is_email s then [] else [\<lparr>path = p, issue_message = msg\<rparr>])"

text \<open>
  \<^verbatim>\<open>z.string().optional().or(z.literal(''))\<close>: an absent value and every string pass.
\<close>

definition string_optional :: "jsstring \<Rightarrow> jsstring option \<Rightarrow> issue list" where
  "string_optional p s = []"

text \<open>
  \<^verbatim>\<open>companyProfileSchema\<close>: the issues of all four fields are collected; parsing
  succeeds with the data when there is none.
\<close>

definition companyProfileSchema ::
  "(jsstring \<Rightarrow> bool) \<Rightarrow> form_data \<Rightarrow> issue list + form_data" where
  "companyProfileSchema is_email d =
     (let issues =
            string_min 2 (js ''El nombre debe tener al menos 2 caracteres'') (js ''name'') (name d)
          @ string_email is_email (js ''Email inv'' @ [0xE1] @ js ''lido'') (js ''contact_email'')
              (contact_email d)
          @ string_optional (js ''description'') (description d)
          @ string_optional (js ''sector'') (sector d)
      in if issues = [] then Inr d else Inl issues)"

text \<open>
  A stand-in for the library's email pattern, to run the schema on concrete inputs:
  the string contains \<^verbatim>\<open>@\<close>.
\<close>

definition sample_is_email :: "jsstring \<Rightarrow> bool" where
  "sample_is_email s = (of_char CHR ''@'' \<in> set s)"

section \<open>Backend calls, notifications and the event trace\<close>

record auth_user =
  u_id :: jsstring
  user_metadata_role :: "role_name option"

record js_file =
  file_name :: jsstring

text \<open>The row object passed to \<^verbatim>\<open>update\<close> on the table of companies.\<close>

record company_update =
  upd_user_id :: jsstring
  upd_name :: "jsstring js_opt"
  upd_contact_email :: "jsstring js_opt"
  upd_description :: "jsstring js_opt"
  upd_sector :: "jsstring js_opt"
  upd_logo_url :: "jsstring js_opt"

text \<open>
  The requests of the backend SDK: the verbs of its query builder on a table
  (\<^verbatim>\<open>select ... eq ... maybeSingle\<close>, \<^verbatim>\<open>insert\<close>, \<^verbatim>\<open>upsert\<close>, \<^verbatim>\<open>update ... eq\<close>), the
  upload to a storage bucket, and the authentication calls.
\<close>

datatype backend_call =
    Select_maybeSingle jsstring jsstring jsstring
  | Insert jsstring company_update
  | Upsert jsstring company_update
  | Update jsstring company_update jsstring jsstring
  | Storage_upload jsstring jsstring js_file
  | Auth_signUp jsstring jsstring jsstring jsstring role_name
  | Auth_signInWithPassword jsstring jsstring
  | Auth_signOut
  | Auth_resend jsstring jsstring

datatype variant = Default | Destructive

text \<open>The button of a toast: clicking it calls \<^verbatim>\<open>resendConfirmation(email)\<close>.\<close>

datatype toast_action = Resend_confirmation jsstring

record toast =
  title :: jsstring
  toast_description :: jsstring
  variant :: "variant option"
  action :: "toast_action option"

text \<open>A function handed to \<^verbatim>\<open>setTimeout(..., 0)\<close>: \<^verbatim>\<open>fetchProfile(userId)\<close>.\<close>

datatype deferred = FetchProfile jsstring

text \<open>What an operation does besides changing its component's state, in order.\<close>

datatype event =
    Call backend_call
  | Toast toast
  | Console_log jsstring
  | Console_error jsstring
  | SetTimeout deferred

fun toasts :: "event list \<Rightarrow> toast list" where
  "toasts [] = []"
| "toasts (Toast t # evs) = t # toasts evs"
| "toasts (_ # evs) = toasts evs"

fun calls :: "event list \<Rightarrow> backend_call list" where
  "calls [] = []"
| "calls (Call c # evs) = c # calls evs"
| "calls (_ # evs) = calls evs"

text \<open>The row objects of the \<^verbatim>\<open>update\<close> calls among the events.\<close>

fun update_rows :: "event list \<Rightarrow> company_update list" where
  "update_rows [] = []"
| "update_rows (Call (Update t row col v) # evs) = row # update_rows evs"
| "update_rows (_ # evs) = update_rows evs"

fun is_update :: "backend_call \<Rightarrow> bool" where
  "is_update (Update t row col v) = True"
| "is_update _ = False"

fun is_insert :: "backend_call \<Rightarrow> bool" where
  "is_insert (Insert t row) = True"
| "is_insert (Upsert t row) = True"
| "is_insert _ = False"

fun console_errors :: "event list \<Rightarrow> jsstring list" where
  "console_errors [] = []"
| "console_errors (Console_error l # evs) = l # console_errors evs"
| "console_errors (_ # evs) = console_errors evs"

section \<open>The company profile page\<close>

record company_profile =
  cp_id :: jsstring
  cp_name :: "jsstring option"
  cp_contact_email :: "jsstring option"
  cp_description :: "jsstring option"
  cp_sector :: "jsstring option"
  cp_logo_url :: "jsstring option"

text \<open>
  The state of the component: \<^verbatim>\<open>loading\<close>, \<^verbatim>\<open>profile\<close>, \<^verbatim>\<open>uploading\<close> and the values
  of the form (written by \<^verbatim>\<open>setValue\<close>). An operation is given the state it is called
  in, the signed-in user and the replies of the backend calls it awaits; it returns
  the state it leaves and its events.
\<close>

record page_state =
  page_loading :: bool
  page_profile :: "company_profile option"
  page_uploading :: bool
  form_values :: form_data

definition load_error_toast :: toast where
  "load_error_toast =
     \<lparr>title = js ''Error'', toast_description = js ''No se pudo cargar el perfil'',
      variant = Some Destructive, action = None\<rparr>"

definition loadProfile ::
  "auth_user option \<Rightarrow> company_profile option reply \<Rightarrow> page_state \<Rightarrow> page_state \<times> event list" where
  "loadProfile usr r st =
     (case usr of
        None \<Rightarrow> (st, [])
      | Some u \<Rightarrow>
          (let q = Call (Select_maybeSingle (js ''companies'') (js ''user_id'') (u_id u)) in
           case r of
             Rejected e \<Rightarrow> (st, [q, Toast load_error_toast])
           | Reply d (Some e) \<Rightarrow> (st, [q, Toast load_error_toast])
           | Reply d None \<Rightarrow>
               (case d of
                  None \<Rightarrow> (st, [q])
                | Some row \<Rightarrow>
                    (st\<lparr>page_profile := Some row,
                        form_values :=
                          \<lparr>name = or_empty (cp_name row),
                           contact_email = or_empty (cp_contact_email row),
                           description = Some (or_empty (cp_description row)),
                           sector = Some (or_empty (cp_sector row))\<rparr>\<rparr>,
                     [q]))))"

text \<open>
  \<^verbatim>\<open>uploadFile\<close>. \<open>getPublicUrl\<close> is the SDK's function from bucket and path to the
  public URL, \<open>now\<close> the value of \<^verbatim>\<open>Date.now()\<close>. \<open>Inl\<close> is a thrown error.
\<close>

definition uploadFile ::
  "auth_user option \<Rightarrow> (jsstring \<Rightarrow> jsstring \<Rightarrow> jsstring) \<Rightarrow> int \<Rightarrow> unit reply \<Rightarrow>
   js_file \<Rightarrow> jsstring \<Rightarrow> (js_error + jsstring) \<times> event list" where
  "uploadFile usr getPublicUrl now r f bucket =
     (case usr of
        None \<Rightarrow> (Inl (Error (js ''No user found'')), [])
      | Some u \<Rightarrow>
          (let fileExt = pop (split_str (of_char CHR ''.'') (file_name f));
               fileName = u_id u @ js ''/'' @ number_toString now @ js ''.'' @ template fileExt;
               filePath = u_id u @ js ''/'' @ fileName;
               c = Call (Storage_upload bucket filePath f)
           in case r of
                Rejected e \<Rightarrow> (Inl e, [c])
              | Reply d (Some e) \<Rightarrow> (Inl e, [c])
              | Reply d None \<Rightarrow> (Inr (getPublicUrl bucket filePath), [c])))"

definition logo_error_toast :: "js_error \<Rightarrow> toast" where
  "logo_error_toast e =
     \<lparr>title = js ''Error'',
      toast_description = or_else (message e) (js ''No se pudo subir el logo''),
      variant = Some Destructive, action = None\<rparr>"

definition logo_updated_toast :: toast where
  "logo_updated_toast =
     \<lparr>title = js ''Logo actualizado'',
      toast_description = js ''Tu logo se ha guardado correctamente'',
      variant = None, action = None\<rparr>"

text \<open>The row object that \<^verbatim>\<open>handleLogoChange\<close> sends.\<close>

definition logo_payload :: "auth_user \<Rightarrow> jsstring \<Rightarrow> page_state \<Rightarrow> company_update" where
  "logo_payload u logoUrl st =
     \<lparr>upd_user_id = u_id u,
      upd_name = chain cp_name (page_profile st),
      upd_contact_email = chain cp_contact_email (page_profile st),
      upd_description = chain cp_description (page_profile st),
      upd_sector = chain cp_sector (page_profile st),
      upd_logo_url = Defined logoUrl\<rparr>"

definition handleLogoChange ::
  "auth_user option \<Rightarrow> (jsstring \<Rightarrow> jsstring \<Rightarrow> jsstring) \<Rightarrow> int \<Rightarrow> unit reply \<Rightarrow> unit reply \<Rightarrow>
   js_file \<Rightarrow> page_state \<Rightarrow> page_state \<times> event list" where
  "handleLogoChange usr getPublicUrl now upload_reply update_reply f st =
     (case usr of
        None \<Rightarrow> (st, [])
      | Some u \<Rightarrow>
          (case uploadFile usr getPublicUrl now upload_reply f (js ''logos'') of
             (Inl e, evs) \<Rightarrow>
               (st\<lparr>page_uploading := False\<rparr>, evs @ [Toast (logo_error_toast e)])
           | (Inr logoUrl, evs) \<Rightarrow>
               (let c = Call (Update (js ''companies'') (logo_payload u logoUrl st)
                                (js ''user_id'') (u_id u))
                in case update_reply of
                     Rejected e \<Rightarrow>
                       (st\<lparr>page_uploading := False\<rparr>, evs @ [c, Toast (logo_error_toast e)])
                   | Reply d (Some e) \<Rightarrow>
                       (st\<lparr>page_uploading := False\<rparr>, evs @ [c, Toast (logo_error_toast e)])
                   | Reply d None \<Rightarrow>
                       (st\<lparr>page_profile :=
                             map_option (\<lambda>prev. prev\<lparr>cp_logo_url := Some logoUrl\<rparr>)
                               (page_profile st),
                           page_uploading := False\<rparr>,
                        evs @ [c, Toast logo_updated_toast]))))"

definition submit_error_toast :: "js_error \<Rightarrow> toast" where
  "submit_error_toast e =
     \<lparr>title = js ''Error'',
      toast_description = or_else (message e) (js ''No se pudo guardar el perfil''),
      variant = Some Destructive, action = None\<rparr>"

definition profile_updated_toast :: toast where
  "profile_updated_toast =
     \<lparr>title = js ''Perfil actualizado'',
      toast_description = js ''Tu perfil se ha guardado correctamente'',
      variant = None, action = None\<rparr>"

text \<open>\<^verbatim>\<open>profileData\<close> of \<^verbatim>\<open>onSubmit\<close>.\<close>

definition profileData :: "auth_user \<Rightarrow> form_data \<Rightarrow> page_state \<Rightarrow> company_update" where
  "profileData u d st =
     \<lparr>upd_user_id = u_id u,
      upd_name = Defined (name d),
      upd_contact_email = Defined (contact_email d),
      upd_description = or_null (description d),
      upd_sector = or_null (sector d),
      upd_logo_url = chain cp_logo_url (page_profile st)\<rparr>"

text \<open>
  \<^verbatim>\<open>onSubmit\<close>. After a successful update it starts \<^verbatim>\<open>loadProfile()\<close> without awaiting
  it: the reload's request is issued before \<^verbatim>\<open>setLoading(false)\<close> runs and its
  reply \<open>reload_reply\<close> is handled afterwards; the two write different parts of the
  state.
\<close>

definition onSubmit ::
  "auth_user option \<Rightarrow> unit reply \<Rightarrow> company_profile option reply \<Rightarrow> form_data \<Rightarrow>
   page_state \<Rightarrow> page_state \<times> event list" where
  "onSubmit usr update_reply reload_reply d st =
     (case usr of
        None \<Rightarrow> (st, [])
      | Some u \<Rightarrow>
          (let c = Call (Update (js ''companies'') (profileData u d st) (js ''user_id'') (u_id u))
           in case update_reply of
                Rejected e \<Rightarrow> (st\<lparr>page_loading := False\<rparr>, [c, Toast (submit_error_toast e)])
              | Reply x (Some e) \<Rightarrow>
                  (st\<lparr>page_loading := False\<rparr>, [c, Toast (submit_error_toast e)])
              | Reply x None \<Rightarrow>
                  (case loadProfile usr reload_reply (st\<lparr>page_loading := False\<rparr>) of
                     (st', evs) \<Rightarrow> (st', [c, Toast profile_updated_toast] @ evs))))"

section \<open>The authentication context\<close>

record session =
  session_user :: "auth_user option"

record profile =
  profile_id :: jsstring
  user_id :: jsstring
  role :: role_name
  created_at :: jsstring
  updated_at :: jsstring

text \<open>The state of \<^verbatim>\<open>AuthProvider\<close>, which is also the data of the context value.\<close>

record auth_state =
  user :: "auth_user option"
  session :: "session option"
  profile :: "profile option"
  loading :: bool

definition fetchProfile ::
  "jsstring \<Rightarrow> profile option reply \<Rightarrow> auth_state \<Rightarrow> auth_state \<times> event list" where
  "fetchProfile userId r st =
     (let l = Console_log (js ''Fetching profile for user:'');
          q = Call (Select_maybeSingle (js ''profiles'') (js ''user_id'') userId)
      in case r of
           Rejected e \<Rightarrow> (st, [l, q, Console_error (js ''Error fetching profile:'')])
         | Reply d (Some e) \<Rightarrow> (st, [l, q, Console_error (js ''Error fetching profile:'')])
         | Reply d None \<Rightarrow>
             (st\<lparr>profile := d\<rparr>, [l, q, Console_log (js ''Profile fetched from DB:'')]))"

text \<open>\<^verbatim>\<open>session?.user\<close>.\<close>

definition user_of :: "session option \<Rightarrow> auth_user option" where
  "user_of s = (case s of None \<Rightarrow> None | Some x \<Rightarrow> session_user x)"

text \<open>The temporary profile built from the metadata of the user.\<close>

definition tempProfile :: "auth_user \<Rightarrow> role_name \<Rightarrow> profile" where
  "tempProfile u userRole =
     \<lparr>profile_id = [], user_id = u_id u, role = userRole, created_at = [], updated_at = []\<rparr>"

text \<open>
  The listener given to \<^verbatim>\<open>onAuthStateChange\<close>. The role of the metadata is absent or one
  of the two roles, so \<^verbatim>\<open>if (userRole)\<close> asks whether it is present. The fetch of the
  profile is not run here: it is handed to \<^verbatim>\<open>setTimeout\<close>.
\<close>

definition onAuthStateChange ::
  "jsstring \<Rightarrow> session option \<Rightarrow> auth_state \<Rightarrow> auth_state \<times> event list" where
  "onAuthStateChange ev s st =
     (let l = Console_log (js ''Auth state change:'');
          st1 = st\<lparr>session := s, user := user_of s\<rparr>
      in case user_of s of
           Some u \<Rightarrow>
             (case user_metadata_role u of
                Some userRole \<Rightarrow>
                  (st1\<lparr>profile := Some (tempProfile u userRole), loading := False\<rparr>,
                   [l, Console_log (js ''User role from metadata:''),
                    Console_log (js ''Setting temporary profile:''),
                    SetTimeout (FetchProfile (u_id u))])
              | None \<Rightarrow>
                  (st1\<lparr>loading := False\<rparr>,
                   [l, Console_log (js ''User role from metadata:''),
                    SetTimeout (FetchProfile (u_id u))]))
         | None \<Rightarrow> (st1\<lparr>profile := None, loading := False\<rparr>, [l]))"

text \<open>The continuation of \<^verbatim>\<open>getSession()\<close>, run once with the initial session.\<close>

definition getSession_then :: "session option \<Rightarrow> auth_state \<Rightarrow> auth_state \<times> event list" where
  "getSession_then s st =
     (let st1 = st\<lparr>session := s, user := user_of s\<rparr>
      in case user_of s of
           Some u \<Rightarrow>
             (case user_metadata_role u of
                Some userRole \<Rightarrow>
                  (st1\<lparr>profile := Some (tempProfile u userRole), loading := False\<rparr>,
                   [SetTimeout (FetchProfile (u_id u))])
              | None \<Rightarrow> (st1\<lparr>loading := False\<rparr>, [SetTimeout (FetchProfile (u_id u))]))
         | None \<Rightarrow> (st1\<lparr>loading := False\<rparr>, []))"

text \<open>Running a function that was handed to \<^verbatim>\<open>setTimeout\<close>, with the reply it awaits.\<close>

fun run_deferred ::
  "deferred \<Rightarrow> profile option reply \<Rightarrow> auth_state \<Rightarrow> auth_state \<times> event list" where
  "run_deferred (FetchProfile userId) r st = fetchProfile userId r st"

record signup_data =
  data_user :: "auth_user option"
  data_session :: "session option"

definition signup_error_toast :: "js_error \<Rightarrow> toast" where
  "signup_error_toast e =
     \<lparr>title = js ''Error en el registro'', toast_description = message e,
      variant = Some Destructive, action = None\<rparr>"

definition email_registered_toast :: "jsstring \<Rightarrow> toast" where
  "email_registered_toast email =
     \<lparr>title = js ''Email ya registrado'',
      toast_description =
        js ''Ese correo ya est'' @ [0xE1] @ js '' en uso. Inicia sesi'' @ [0xF3]
        @ js ''n o confirma tu cuenta desde el email.'',
      variant = Some Destructive, action = Some (Resend_confirmation email)\<rparr>"

definition signup_ok_toast :: toast where
  "signup_ok_toast =
     \<lparr>title = [0xA1] @ js ''Registro exitoso!'',
      toast_description = js ''Revisa tu email para confirmar tu cuenta.'',
      variant = None, action = None\<rparr>"

text \<open>
  \<^verbatim>\<open>signUp\<close>; \<open>origin\<close> is \<^verbatim>\<open>window.location.origin\<close>. The result is \<open>Inl\<close> when the
  awaited call rejects (nothing catches it), and otherwise \<open>Inr\<close> of the \<^verbatim>\<open>error\<close>
  property of the returned object.
\<close>

definition signUp ::
  "jsstring \<Rightarrow> signup_data reply \<Rightarrow> jsstring \<Rightarrow> jsstring \<Rightarrow> jsstring \<Rightarrow> role_name \<Rightarrow>
   (js_error + js_error option) \<times> event list" where
  "signUp origin r email password nm rl =
     (let redirectUrl = origin @ js ''/confirm'';
          l = Console_log (js ''SignUp - Redirect URL set to:'');
          c = Call (Auth_signUp email password redirectUrl nm rl);
          l2 = Console_log ([0xD83D, 0xDC49] @ js '' Resultado signUp:'')
      in case r of
           Rejected e \<Rightarrow> (Inl e, [l, c])
         | Reply d (Some e) \<Rightarrow> (Inr (Some e), [l, c, l2, Toast (signup_error_toast e)])
         | Reply d None \<Rightarrow>
             (if data_user d \<noteq> None \<and> data_session d = None
              then (Inr (Some (Error (js ''Email ya registrado''))),
                    [l, c, l2, Toast (email_registered_toast email)])
              else (Inr None, [l, c, l2, Toast signup_ok_toast])))"

definition signin_error_toast :: "js_error \<Rightarrow> toast" where
  "signin_error_toast e =
     \<lparr>title = js ''Error en el login'', toast_description = message e,
      variant = Some Destructive, action = None\<rparr>"

definition signIn ::
  "'d reply \<Rightarrow> jsstring \<Rightarrow> jsstring \<Rightarrow> (js_error + js_error option) \<times> event list" where
  "signIn r email password =
     (let c = Call (Auth_signInWithPassword email password)
      in case r of
           Rejected e \<Rightarrow> (Inl e, [c])
         | Reply d (Some e) \<Rightarrow> (Inr (Some e), [c, Toast (signin_error_toast e)])
         | Reply d None \<Rightarrow> (Inr None, [c]))"

text \<open>
  \<^verbatim>\<open>signOut\<close>: the reply of the backend is awaited and dropped. When the awaited call
  rejects, the three setters are not reached.
\<close>

definition signOut ::
  "'d reply \<Rightarrow> auth_state \<Rightarrow> (js_error + unit) \<times> auth_state \<times> event list" where
  "signOut r st =
     (case r of
        Rejected e \<Rightarrow> (Inl e, st, [Call Auth_signOut])
      | Reply d e \<Rightarrow>
          (Inr (), st\<lparr>user := None, session := None, profile := None\<rparr>, [Call Auth_signOut]))"

definition rate_limit_toast :: toast where
  "rate_limit_toast =
     \<lparr>title = js ''Espera un momento'',
      toast_description =
        js ''Por seguridad, debes esperar antes de solicitar otro email. ''
        @ js ''Es posible que ya se haya enviado uno.'',
      variant = Some Default, action = None\<rparr>"

definition resend_error_toast :: "js_error \<Rightarrow> toast" where
  "resend_error_toast e =
     \<lparr>title = js ''Error al reenviar'', toast_description = message e,
      variant = Some Destructive, action = None\<rparr>"

definition resend_ok_toast :: toast where
  "resend_ok_toast =
     \<lparr>title = js ''Email reenviado'',
      toast_description =
        js ''Se ha enviado un nuevo email de confirmaci'' @ [0xF3]
        @ js ''n. Revisa tu bandeja de entrada.'',
      variant = None, action = None\<rparr>"

definition resendConfirmation ::
  "jsstring \<Rightarrow> 'd reply \<Rightarrow> jsstring \<Rightarrow> (js_error + js_error option) \<times> event list" where
  "resendConfirmation origin r email =
     (let redirectUrl = origin @ js ''/confirm'';
          c = Call (Auth_resend email redirectUrl)
      in case r of
           Rejected e \<Rightarrow> (Inl e, [c])
         | Reply d (Some e) \<Rightarrow>
             (if includes_str (message e) (js ''For security purposes'')
                 \<or> includes_str (message e) (js ''rate limit'')
              then (Inr (Some e), [c, Toast rate_limit_toast])
              else (Inr (Some e), [c, Toast (resend_error_toast e)]))
         | Reply d None \<Rightarrow> (Inr None, [c, Toast resend_ok_toast]))"

text \<open>
  The context: \<^verbatim>\<open>createContext(undefined)\<close> has the default value \<^verbatim>\<open>undefined\<close>;
  \<^verbatim>\<open>useContext\<close> reads the value of the nearest enclosing provider, the default when
  there is none. \<open>providers\<close> lists the values of the enclosing providers, nearest
  first. \<^verbatim>\<open>AuthProvider\<close> renders its children inside a provider of its value.
\<close>

definition useContext :: "'v \<Rightarrow> 'v list \<Rightarrow> 'v" where
  "useContext dflt providers = (case providers of [] \<Rightarrow> dflt | v # _ \<Rightarrow> v)"

definition AuthProvider :: "auth_state \<Rightarrow> auth_state option list \<Rightarrow> auth_state option list" where
  "AuthProvider val providers = Some val # providers"

definition useAuth :: "auth_state option list \<Rightarrow> js_error + auth_state" where
  "useAuth providers =
     (case useContext None providers of
        None \<Rightarrow> Inl (Error (js ''useAuth must be used within an AuthProvider''))
      | Some context \<Rightarrow> Inr context)"

section \<open>Facts about strings\<close>

lemma length_js [simp]: "length (js s) = length s"
  by (simp add: js_def)

lemma js_Nil [simp]: "js [] = []"
  by (simp add: js_def)

lemma js_Cons: "js (c # cs) = of_char c # js cs"
  by (simp add: js_def)

lemma js_eq_Nil [simp]: "(js s = []) = (s = [])"
  by (simp add: js_def)

lemma sample_is_email_example: "sample_is_email (js ''a@b.co'')"
  by (simp add: sample_is_email_def js_Cons)

lemma not_sample_is_email_example: "\<not> sample_is_email (js ''ab'')"
  by (simp add: sample_is_email_def js_Cons)

text \<open>The string functions on concrete inputs.\<close>

lemma split_str_example:
  "split_str (of_char CHR ''.'') (js ''logo.final.png'') = [js ''logo'', js ''final'', js ''png'']"
  by (simp add: js_Cons)

lemma split_str_no_dot: "split_str (of_char CHR ''.'') (js ''logo'') = [js ''logo'']"
  by (simp add: js_Cons)

lemma number_toString_example: "number_toString 1730000000123 = js ''1730000000123''"
  by (simp add: number_toString_def js_Cons digit_def)

lemma number_toString_neg: "number_toString (- 5) = js ''-5''"
  by (simp add: number_toString_def js_Cons digit_def)

lemma includes_str_example:
  "includes_str (js ''email rate limit exceeded'') (js ''rate limit'')"
  by (simp add: js_Cons)

lemmas schema_defs =
  companyProfileSchema_def string_min_def string_email_def string_optional_def

section \<open>Errors of backend calls\<close>

text \<open>
  C1, as the claim states it, fails for \<^verbatim>\<open>fetchProfile\<close>: when the query of the
  profile returns an error, the error is written to the console and no toast is
  raised.
\<close>

theorem fetchProfile_error_no_toast:
  "toasts (snd (fetchProfile (js ''u1'') (Reply None (Some (Error (js ''permission denied''))))
                  \<lparr>user = None, session = None, profile = None, loading = False\<rparr>)) = []
   \<and> console_errors
         (snd (fetchProfile (js ''u1'') (Reply None (Some (Error (js ''permission denied''))))
                 \<lparr>user = None, session = None, profile = None, loading = False\<rparr>))
       = [js ''Error fetching profile:'']"
  by (simp add: fetchProfile_def)

text \<open>
  C1, amended: an error returned by the company load, by the logo upload, by the logo
  update, by the form submit, by sign-up, by sign-in or by the resend of the
  confirmation raises exactly one toast (destructive, except the rate-limit notice of
  the resend). An error returned to \<^verbatim>\<open>fetchProfile\<close> is only written to the console:
  no toast, and the state is left as it was. The reply of \<^verbatim>\<open>signOut\<close> is not
  inspected, so its error raises no toast either.
\<close>

theorem backend_errors_surfaced:
  "toasts (snd (loadProfile (Some u) (Reply row (Some e)) st))
     = [\<lparr>title = js ''Error'', toast_description = js ''No se pudo cargar el perfil'',
         variant = Some Destructive, action = None\<rparr>]
   \<and> toasts (snd (handleLogoChange (Some u) getPublicUrl now (Reply x (Some e)) r f st))
     = [\<lparr>title = js ''Error'',
         toast_description = or_else (message e) (js ''No se pudo subir el logo''),
         variant = Some Destructive, action = None\<rparr>]
   \<and> toasts (snd (handleLogoChange (Some u) getPublicUrl now (Reply x None) (Reply y (Some e)) f st))
     = [\<lparr>title = js ''Error'',
         toast_description = or_else (message e) (js ''No se pudo subir el logo''),
         variant = Some Destructive, action = None\<rparr>]
   \<and> toasts (snd (onSubmit (Some u) (Reply x (Some e)) r' d st))
     = [\<lparr>title = js ''Error'',
         toast_description = or_else (message e) (js ''No se pudo guardar el perfil''),
         variant = Some Destructive, action = None\<rparr>]
   \<and> toasts (snd (signUp origin (Reply sd (Some e)) email password nm rl))
     = [\<lparr>title = js ''Error en el registro'', toast_description = message e,
         variant = Some Destructive, action = None\<rparr>]
   \<and> toasts (snd (signIn (Reply sd' (Some e)) email password))
     = [\<lparr>title = js ''Error en el login'', toast_description = message e,
         variant = Some Destructive, action = None\<rparr>]
   \<and> toasts (snd (resendConfirmation origin (Reply sd' (Some e)) email))
     = [if includes_str (message e) (js ''For security purposes'')
           \<or> includes_str (message e) (js ''rate limit'')
        then rate_limit_toast else resend_error_toast e]
   \<and> toasts (snd (fetchProfile userId (Reply p (Some e)) ast)) = []
   \<and> console_errors (snd (fetchProfile userId (Reply p (Some e)) ast))
     = [js ''Error fetching profile:'']
   \<and> fst (fetchProfile userId (Reply p (Some e)) ast) = ast
   \<and> toasts (snd (snd (signOut (Reply sd' (Some e)) ast))) = []"
  by (simp add: loadProfile_def handleLogoChange_def uploadFile_def onSubmit_def fetchProfile_def
        signUp_def signIn_def resendConfirmation_def signOut_def
        load_error_toast_def logo_error_toast_def submit_error_toast_def
        signup_error_toast_def signin_error_toast_def Let_def)

section \<open>Validation of the form\<close>

text \<open>
  C2, as the claim states it, fails: a name of one code unit is rejected, with a valid
  email.
\<close>

theorem schema_rejects_one_character_name:
  "1 \<le> length (name \<lparr>name = js ''A'', contact_email = js ''a@b.co'', description = None,
                      sector = None\<rparr>)
   \<and> sample_is_email (contact_email \<lparr>name = js ''A'', contact_email = js ''a@b.co'',
                                     description = None, sector = None\<rparr>)
   \<and> companyProfileSchema sample_is_email
        \<lparr>name = js ''A'', contact_email = js ''a@b.co'', description = None, sector = None\<rparr>
      = Inl [\<lparr>path = js ''name'',
              issue_message = js ''El nombre debe tener al menos 2 caracteres''\<rparr>]"
  by (simp add: schema_defs sample_is_email_example)

text \<open>
  C2, amended: validation succeeds exactly when the name has at least two code units
  and the email is valid; in particular it accepts every name of length at least 2
  together with a valid email.
\<close>

theorem schema_accepts_iff:
  "(companyProfileSchema is_email d = Inr d)
   = (2 \<le> length (name d) \<and> is_email (contact_email d))"
  by (auto simp add: schema_defs Let_def)

theorem schema_accepts_iff_witness:
  "2 \<le> length (js ''Ab'') \<and> sample_is_email (js ''a@b.co'')
   \<and> companyProfileSchema sample_is_email
        \<lparr>name = js ''Ab'', contact_email = js ''a@b.co'', description = None, sector = None\<rparr>
      = Inr \<lparr>name = js ''Ab'', contact_email = js ''a@b.co'', description = None,
             sector = None\<rparr>"
  using schema_accepts_iff [of sample_is_email
      "\<lparr>name = js ''Ab'', contact_email = js ''a@b.co'', description = None, sector = None\<rparr>"]
    sample_is_email_example
  by simp

text \<open>
  C8: validation rejects every form whose contact email the email pattern does not
  match, with an issue on \<^verbatim>\<open>contact_email\<close>, and accepts every name of exactly two code
  units together with a valid email.
\<close>

theorem schema_rejects_invalid_email_accepts_two_chars:
  "(\<not> is_email (contact_email d) \<longrightarrow>
      (\<exists>issues. companyProfileSchema is_email d = Inl issues
         \<and> \<lparr>path = js ''contact_email'', issue_message = js ''Email inv'' @ [0xE1] @ js ''lido''\<rparr>
             \<in> set issues))
   \<and> (length (name d) = 2 \<and> is_email (contact_email d) \<longrightarrow>
        companyProfileSchema is_email d = Inr d)"
  by (simp add: schema_defs Let_def)

theorem schema_rejects_invalid_email_accepts_two_chars_witness:
  "(\<not> sample_is_email (js ''ab'') \<and>
      (\<exists>issues. companyProfileSchema sample_is_email
           \<lparr>name = js ''Acme'', contact_email = js ''ab'', description = None, sector = None\<rparr>
           = Inl issues
         \<and> \<lparr>path = js ''contact_email'', issue_message = js ''Email inv'' @ [0xE1] @ js ''lido''\<rparr>
             \<in> set issues))
   \<and> (length (js ''Ab'') = 2 \<and> sample_is_email (js ''a@b.co'') \<and>
        companyProfileSchema sample_is_email
          \<lparr>name = js ''Ab'', contact_email = js ''a@b.co'', description = None, sector = None\<rparr>
        = Inr \<lparr>name = js ''Ab'', contact_email = js ''a@b.co'', description = None,
               sector = None\<rparr>)"
  using schema_rejects_invalid_email_accepts_two_chars [of sample_is_email
      "\<lparr>name = js ''Acme'', contact_email = js ''ab'', description = None, sector = None\<rparr>"]
    schema_rejects_invalid_email_accepts_two_chars [of sample_is_email
      "\<lparr>name = js ''Ab'', contact_email = js ''a@b.co'', description = None, sector = None\<rparr>"]
    sample_is_email_example not_sample_is_email_example
  by simp

section \<open>Facts about the event trace\<close>

lemma split_str_not_Nil [simp]: "split_str sep s \<noteq> []"
  by (induction s) (auto split: list.splits)

lemma toasts_append [simp]: "toasts (xs @ ys) = toasts xs @ toasts ys"
  by (induction xs rule: toasts.induct) auto

lemma calls_append [simp]: "calls (xs @ ys) = calls xs @ calls ys"
  by (induction xs rule: calls.induct) auto

lemma update_rows_append [simp]: "update_rows (xs @ ys) = update_rows xs @ update_rows ys"
  by (induction xs rule: update_rows.induct) auto

lemma calls_loadProfile:
  "calls (snd (loadProfile (Some u) r st))
   = [Select_maybeSingle (js ''companies'') (js ''user_id'') (u_id u)]"
  by (simp add: loadProfile_def Let_def split: reply.splits option.splits)

lemma update_rows_loadProfile: "update_rows (snd (loadProfile usr r st)) = []"
  by (simp add: loadProfile_def Let_def split: reply.splits option.splits)

lemma calls_uploadFile:
  "calls (snd (uploadFile (Some u) getPublicUrl now r f bucket))
   = [Storage_upload bucket
        (u_id u @ js ''/'' @ u_id u @ js ''/'' @ number_toString now @ js ''.''
         @ last (split_str (of_char CHR ''.'') (file_name f))) f]"
  by (simp add: uploadFile_def Let_def pop_def template_def split: reply.splits option.splits)

lemma update_rows_uploadFile: "update_rows (snd (uploadFile usr getPublicUrl now r f bucket)) = []"
  by (simp add: uploadFile_def Let_def split: reply.splits option.splits)

lemma uploadFile_ok:
  "fst (uploadFile (Some u) getPublicUrl now (Reply x None) f bucket)
   = Inr (getPublicUrl bucket
        (u_id u @ js ''/'' @ u_id u @ js ''/'' @ number_toString now @ js ''.''
         @ last (split_str (of_char CHR ''.'') (file_name f))))"
  by (simp add: uploadFile_def Let_def pop_def template_def)

lemma update_rows_onSubmit:
  "update_rows (snd (onSubmit (Some u) update_reply reload_reply d st)) = [profileData u d st]"
  using update_rows_loadProfile [of "Some u" reload_reply "st\<lparr>page_loading := False\<rparr>"]
  by (auto simp add: onSubmit_def Let_def split: reply.splits option.splits prod.splits)

lemma update_rows_handleLogoChange:
  "update_rows (snd (handleLogoChange (Some u) getPublicUrl now (Reply x None) update_reply f st))
   = [logo_payload u
        (getPublicUrl (js ''logos'')
           (u_id u @ js ''/'' @ u_id u @ js ''/'' @ number_toString now @ js ''.''
            @ last (split_str (of_char CHR ''.'') (file_name f)))) st]"
  by (simp add: handleLogoChange_def uploadFile_def Let_def pop_def template_def
        split: reply.splits option.splits)

lemma handleLogoChange_ok:
  "fst (handleLogoChange (Some u) getPublicUrl now (Reply x None) (Reply y None) f st)
   = st\<lparr>page_profile :=
          map_option (\<lambda>prev. prev\<lparr>cp_logo_url := Some (getPublicUrl (js ''logos'')
           (u_id u @ js ''/'' @ u_id u @ js ''/'' @ number_toString now @ js ''.''
            @ last (split_str (of_char CHR ''.'') (file_name f))))\<rparr>) (page_profile st),
        page_uploading := False\<rparr>"
  by (simp add: handleLogoChange_def uploadFile_def Let_def pop_def template_def)

section \<open>Sign-up\<close>

text \<open>
  C3, as the claim states it, fails: the backend call returns no error, with a user
  and no session, and \<^verbatim>\<open>signUp\<close> returns an error of its own.
\<close>

theorem signUp_existing_user_returns_error:
  "fst (signUp (js ''https://talentup.app'')
          (Reply \<lparr>data_user = Some \<lparr>u_id = js ''u1'', user_metadata_role = Some Company\<rparr>,
                  data_session = None\<rparr> None)
          (js ''a@b.co'') (js ''secret'') (js ''Acme'') Company)
   = Inr (Some (Error (js ''Email ya registrado'')))"
  by (simp add: signUp_def Let_def)

text \<open>
  C3, amended: when the backend call returns, \<^verbatim>\<open>signUp\<close> returns \<^verbatim>\<open>{ error: null }\<close>
  exactly when the backend returned no error and did not return a user without a
  session; the error it returns for a failing call is the backend's error; when the
  backend returns no error but a user without a session, it returns a new error
  \<^verbatim>\<open>Email ya registrado\<close>.
\<close>

theorem signUp_error_result:
  "(fst (signUp origin (Reply d e) email password nm rl) = Inr None)
     = (e = None \<and> \<not> (data_user d \<noteq> None \<and> data_session d = None))
   \<and> fst (signUp origin (Reply d (Some x)) email password nm rl) = Inr (Some x)
   \<and> (data_user d \<noteq> None \<and> data_session d = None \<longrightarrow>
        fst (signUp origin (Reply d None) email password nm rl)
        = Inr (Some (Error (js ''Email ya registrado''))))"
  by (auto simp add: signUp_def Let_def split: option.splits)

theorem signUp_error_result_witness:
  "fst (signUp (js ''https://talentup.app'')
          (Reply \<lparr>data_user = None, data_session = None\<rparr> None)
          (js ''a@b.co'') (js ''secret'') (js ''Acme'') Company) = Inr None
   \<and> fst (signUp (js ''https://talentup.app'')
          (Reply \<lparr>data_user = None, data_session = None\<rparr> (Some (Error (js ''weak password''))))
          (js ''a@b.co'') (js ''secret'') (js ''Acme'') Company)
       = Inr (Some (Error (js ''weak password'')))
   \<and> fst (signUp (js ''https://talentup.app'')
          (Reply \<lparr>data_user = Some \<lparr>u_id = js ''u1'', user_metadata_role = Some Company\<rparr>,
                  data_session = None\<rparr> None)
          (js ''a@b.co'') (js ''secret'') (js ''Acme'') Company)
       = Inr (Some (Error (js ''Email ya registrado'')))"
  using signUp_error_result [of "js ''https://talentup.app''" "\<lparr>data_user = None, data_session = None\<rparr>" None
            "js ''a@b.co''" "js ''secret''" "js ''Acme''" Company "Error (js ''weak password'')"]
    signUp_error_result [of "js ''https://talentup.app''"
           "\<lparr>data_user = Some \<lparr>u_id = js ''u1'', user_metadata_role = Some Company\<rparr>,
             data_session = None\<rparr>" None
            "js ''a@b.co''" "js ''secret''" "js ''Acme''" Company "Error (js ''weak password'')"]
  by simp

section \<open>The temporary profile\<close>

text \<open>
  C4: on an auth-state change and on the initial session load, when the session has a
  user whose metadata has a role, the handler leaves a temporary profile with the
  user's id, the role of the metadata and empty id and timestamps; the handler issues
  no backend call, the fetch of the profile is only handed to \<^verbatim>\<open>setTimeout\<close>. On an
  auth-state change without a session user the profile is set to null.
\<close>

theorem temporary_profile_from_metadata:
  "(user_of s = Some u \<and> user_metadata_role u = Some r \<longrightarrow>
      profile (fst (onAuthStateChange ev s st))
        = Some \<lparr>profile_id = [], user_id = u_id u, role = r, created_at = [], updated_at = []\<rparr>
      \<and> calls (snd (onAuthStateChange ev s st)) = []
      \<and> last (snd (onAuthStateChange ev s st)) = SetTimeout (FetchProfile (u_id u))
      \<and> profile (fst (getSession_then s st))
        = Some \<lparr>profile_id = [], user_id = u_id u, role = r, created_at = [], updated_at = []\<rparr>
      \<and> snd (getSession_then s st) = [SetTimeout (FetchProfile (u_id u))])
   \<and> (user_of s = None \<longrightarrow> profile (fst (onAuthStateChange ev s st)) = None)"
  by (simp add: onAuthStateChange_def getSession_then_def tempProfile_def Let_def)

theorem temporary_profile_from_metadata_witness:
  "user_of (Some \<lparr>session_user = Some \<lparr>u_id = js ''u1'', user_metadata_role = Some Developer\<rparr>\<rparr>)
     = Some \<lparr>u_id = js ''u1'', user_metadata_role = Some Developer\<rparr>
   \<and> profile (fst (onAuthStateChange (js ''SIGNED_IN'')
         (Some \<lparr>session_user = Some \<lparr>u_id = js ''u1'', user_metadata_role = Some Developer\<rparr>\<rparr>)
         \<lparr>user = None, session = None, profile = None, loading = True\<rparr>))
     = Some \<lparr>profile_id = [], user_id = js ''u1'', role = Developer, created_at = [],
             updated_at = []\<rparr>
   \<and> user_of None = None
   \<and> profile (fst (onAuthStateChange (js ''SIGNED_OUT'') None
         \<lparr>user = None, session = None,
          profile = Some \<lparr>profile_id = js ''p1'', user_id = js ''u1'', role = Developer,
                          created_at = js ''t0'', updated_at = js ''t0''\<rparr>,
          loading = False\<rparr>)) = None"
  using temporary_profile_from_metadata [of "Some \<lparr>session_user = Some \<lparr>u_id = js ''u1'', user_metadata_role = Some Developer\<rparr>\<rparr>"
               "\<lparr>u_id = js ''u1'', user_metadata_role = Some Developer\<rparr>" Developer
               "js ''SIGNED_IN''" "\<lparr>user = None, session = None, profile = None, loading = True\<rparr>"]
    temporary_profile_from_metadata [of None "\<lparr>u_id = js ''u1'', user_metadata_role = Some Developer\<rparr>" Developer
           "js ''SIGNED_OUT''"
           "\<lparr>user = None, session = None,
          profile = Some \<lparr>profile_id = js ''p1'', user_id = js ''u1'', role = Developer,
                          created_at = js ''t0'', updated_at = js ''t0''\<rparr>,
          loading = False\<rparr>"]
  by (simp add: user_of_def)

section \<open>Sign-out\<close>

text \<open>
  C5: when \<^verbatim>\<open>signOut\<close> completes, user, session and profile are null, whatever the
  state before; and it completes whenever the backend call returns, with or without
  an error.
\<close>

theorem signOut_clears_auth_state:
  "(fst (signOut r st) = Inr () \<longrightarrow>
      user (fst (snd (signOut r st))) = None
      \<and> session (fst (snd (signOut r st))) = None
      \<and> profile (fst (snd (signOut r st))) = None)
   \<and> fst (signOut (Reply d e) st) = Inr ()"
  by (simp add: signOut_def split: reply.splits)

theorem signOut_clears_auth_state_witness:
  "fst (signOut (Reply () None)
         \<lparr>user = Some \<lparr>u_id = js ''u1'', user_metadata_role = Some Developer\<rparr>,
          session = Some \<lparr>session_user =
                            Some \<lparr>u_id = js ''u1'', user_metadata_role = Some Developer\<rparr>\<rparr>,
          profile = Some \<lparr>profile_id = js ''p1'', user_id = js ''u1'', role = Developer,
                          created_at = js ''t0'', updated_at = js ''t0''\<rparr>,
          loading = False\<rparr>) = Inr ()
   \<and> user (fst (snd (signOut (Reply () None)
         \<lparr>user = Some \<lparr>u_id = js ''u1'', user_metadata_role = Some Developer\<rparr>,
          session = Some \<lparr>session_user =
                            Some \<lparr>u_id = js ''u1'', user_metadata_role = Some Developer\<rparr>\<rparr>,
          profile = Some \<lparr>profile_id = js ''p1'', user_id = js ''u1'', role = Developer,
                          created_at = js ''t0'', updated_at = js ''t0''\<rparr>,
          loading = False\<rparr>))) = None
   \<and> session (fst (snd (signOut (Reply () None)
         \<lparr>user = Some \<lparr>u_id = js ''u1'', user_metadata_role = Some Developer\<rparr>,
          session = Some \<lparr>session_user =
                            Some \<lparr>u_id = js ''u1'', user_metadata_role = Some Developer\<rparr>\<rparr>,
          profile = Some \<lparr>profile_id = js ''p1'', user_id = js ''u1'', role = Developer,
                          created_at = js ''t0'', updated_at = js ''t0''\<rparr>,
          loading = False\<rparr>))) = None
   \<and> profile (fst (snd (signOut (Reply () None)
         \<lparr>user = Some \<lparr>u_id = js ''u1'', user_metadata_role = Some Developer\<rparr>,
          session = Some \<lparr>session_user =
                            Some \<lparr>u_id = js ''u1'', user_metadata_role = Some Developer\<rparr>\<rparr>,
          profile = Some \<lparr>profile_id = js ''p1'', user_id = js ''u1'', role = Developer,
                          created_at = js ''t0'', updated_at = js ''t0''\<rparr>,
          loading = False\<rparr>))) = None"
  using signOut_clears_auth_state [of "Reply () None"
         "\<lparr>user = Some \<lparr>u_id = js ''u1'', user_metadata_role = Some Developer\<rparr>,
          session = Some \<lparr>session_user =
                            Some \<lparr>u_id = js ''u1'', user_metadata_role = Some Developer\<rparr>\<rparr>,
          profile = Some \<lparr>profile_id = js ''p1'', user_id = js ''u1'', role = Developer,
                          created_at = js ''t0'', updated_at = js ''t0''\<rparr>,
          loading = False\<rparr>" "()" None]
  by simp

section \<open>The form submit and the logo change\<close>

text \<open>
  C6: with a signed-in user, \<^verbatim>\<open>onSubmit\<close> issues exactly one update call, on the table
  of companies with \<^verbatim>\<open>eq\<close> on \<^verbatim>\<open>user_id\<close> and the id of the user, and no insert; the row
  has name and contact email as the form gives them, and description and sector null
  when the form value is absent or empty, the form value otherwise.
\<close>

theorem onSubmit_single_update:
  "filter is_update (calls (snd (onSubmit (Some u) update_reply reload_reply d st)))
     = [Update (js ''companies'') (profileData u d st) (js ''user_id'') (u_id u)]
   \<and> filter is_insert (calls (snd (onSubmit (Some u) update_reply reload_reply d st))) = []
   \<and> upd_user_id (profileData u d st) = u_id u
   \<and> upd_name (profileData u d st) = Defined (name d)
   \<and> upd_contact_email (profileData u d st) = Defined (contact_email d)
   \<and> (description d = None \<or> description d = Some [] \<longrightarrow>
        upd_description (profileData u d st) = Null)
   \<and> (sector d = None \<or> sector d = Some [] \<longrightarrow> upd_sector (profileData u d st) = Null)
   \<and> (description d = Some s \<and> s \<noteq> [] \<longrightarrow> upd_description (profileData u d st) = Defined s)
   \<and> (sector d = Some t \<and> t \<noteq> [] \<longrightarrow> upd_sector (profileData u d st) = Defined t)"
proof -
  have "calls (snd (onSubmit (Some u) update_reply reload_reply d st))
        = Update (js ''companies'') (profileData u d st) (js ''user_id'') (u_id u)
          # (case update_reply of
               Reply x None \<Rightarrow> [Select_maybeSingle (js ''companies'') (js ''user_id'') (u_id u)]
             | _ \<Rightarrow> [])"
    using calls_loadProfile [of u reload_reply "st\<lparr>page_loading := False\<rparr>"]
    by (auto simp add: onSubmit_def Let_def split: reply.splits option.splits prod.splits)
  then have "filter is_update (calls (snd (onSubmit (Some u) update_reply reload_reply d st)))
     = [Update (js ''companies'') (profileData u d st) (js ''user_id'') (u_id u)]"
    and "filter is_insert (calls (snd (onSubmit (Some u) update_reply reload_reply d st))) = []"
    by (simp_all split: reply.splits option.splits)
  then show ?thesis
    by (auto simp add: profileData_def or_null_def)
qed

theorem onSubmit_single_update_witness:
  "(description \<lparr>name = js ''Acme'', contact_email = js ''a@b.co'', description = Some [],
                 sector = Some (js ''IT'')\<rparr> = None
    \<or> description \<lparr>name = js ''Acme'', contact_email = js ''a@b.co'', description = Some [],
                 sector = Some (js ''IT'')\<rparr> = Some [])
   \<and> upd_description
        (profileData \<lparr>u_id = js ''u1'', user_metadata_role = Some Company\<rparr>
           \<lparr>name = js ''Acme'', contact_email = js ''a@b.co'', description = Some [],
            sector = Some (js ''IT'')\<rparr>
           \<lparr>page_loading = False, page_profile = None, page_uploading = False,
            form_values = \<lparr>name = [], contact_email = [], description = Some [],
                           sector = Some []\<rparr>\<rparr>) = Null
   \<and> js ''IT'' \<noteq> []
   \<and> upd_sector
        (profileData \<lparr>u_id = js ''u1'', user_metadata_role = Some Company\<rparr>
           \<lparr>name = js ''Acme'', contact_email = js ''a@b.co'', description = Some [],
            sector = Some (js ''IT'')\<rparr>
           \<lparr>page_loading = False, page_profile = None, page_uploading = False,
            form_values = \<lparr>name = [], contact_email = [], description = Some [],
                           sector = Some []\<rparr>\<rparr>) = Defined (js ''IT'')"
  using onSubmit_single_update [of "\<lparr>u_id = js ''u1'', user_metadata_role = Some Company\<rparr>"
      "Reply () None" "Reply None None"
      "\<lparr>name = js ''Acme'', contact_email = js ''a@b.co'', description = Some [],
        sector = Some (js ''IT'')\<rparr>"
      "\<lparr>page_loading = False, page_profile = None, page_uploading = False,
        form_values = \<lparr>name = [], contact_email = [], description = Some [],
                       sector = Some []\<rparr>\<rparr>"
      "js ''x''" "js ''IT''"]
  by simp

text \<open>
  C7: the row of the form submit carries the logo URL of the loaded profile
  (\<^verbatim>\<open>undefined\<close> when no profile is loaded); the row of the logo change carries name,
  contact email, description and sector of the loaded profile; a successful logo
  change writes only the logo URL of the local profile (and resets \<^verbatim>\<open>uploading\<close>).
\<close>

theorem logo_and_form_updates_separate:
  "(page_profile st = Some p \<longrightarrow>
      map upd_logo_url (update_rows (snd (onSubmit (Some u) update_reply reload_reply d st)))
        = [of_nullable (cp_logo_url p)]
      \<and> map (\<lambda>row. (upd_name row, upd_contact_email row, upd_description row, upd_sector row))
          (update_rows
             (snd (handleLogoChange (Some u) getPublicUrl now (Reply x None) update_reply f st)))
        = [(of_nullable (cp_name p), of_nullable (cp_contact_email p),
            of_nullable (cp_description p), of_nullable (cp_sector p))]
      \<and> (\<exists>logoUrl.
            fst (handleLogoChange (Some u) getPublicUrl now (Reply x None) (Reply y None) f st)
            = st\<lparr>page_profile := Some (p\<lparr>cp_logo_url := Some logoUrl\<rparr>),
                 page_uploading := False\<rparr>))
   \<and> (page_profile st = None \<longrightarrow>
      map upd_logo_url (update_rows (snd (onSubmit (Some u) update_reply reload_reply d st)))
        = [Undefined]
      \<and> map (\<lambda>row. (upd_name row, upd_contact_email row, upd_description row, upd_sector row))
          (update_rows
             (snd (handleLogoChange (Some u) getPublicUrl now (Reply x None) update_reply f st)))
        = [(Undefined, Undefined, Undefined, Undefined)]
      \<and> fst (handleLogoChange (Some u) getPublicUrl now (Reply x None) (Reply y None) f st)
        = st\<lparr>page_uploading := False\<rparr>)"
proof -
  have "\<exists>logoUrl.
          fst (handleLogoChange (Some u) getPublicUrl now (Reply x None) (Reply y None) f st)
          = st\<lparr>page_profile := Some (p\<lparr>cp_logo_url := Some logoUrl\<rparr>), page_uploading := False\<rparr>"
    if "page_profile st = Some p"
    using that by (simp add: handleLogoChange_ok) blast
  then show ?thesis
    by (simp add: update_rows_onSubmit update_rows_handleLogoChange handleLogoChange_ok
          profileData_def logo_payload_def chain_def)
qed

theorem logo_and_form_updates_separate_witness:
  "page_profile
     \<lparr>page_loading = False,
      page_profile = Some \<lparr>cp_id = js ''c1'', cp_name = Some (js ''Acme''),
                            cp_contact_email = Some (js ''a@b.co''), cp_description = None,
                            cp_sector = None, cp_logo_url = Some (js ''old.png'')\<rparr>,
      page_uploading = False,
      form_values = \<lparr>name = js ''Acme'', contact_email = js ''a@b.co'',
                     description = Some [], sector = Some []\<rparr>\<rparr>
   = Some \<lparr>cp_id = js ''c1'', cp_name = Some (js ''Acme''),
           cp_contact_email = Some (js ''a@b.co''), cp_description = None,
           cp_sector = None, cp_logo_url = Some (js ''old.png'')\<rparr>
   \<and> map upd_logo_url
        (update_rows
           (snd (onSubmit (Some \<lparr>u_id = js ''u1'', user_metadata_role = Some Company\<rparr>)
                   (Reply () None) (Reply None None)
                   \<lparr>name = js ''Acme 2'', contact_email = js ''a@b.co'', description = Some [],
                    sector = Some (js ''IT'')\<rparr>
                   \<lparr>page_loading = False,
                    page_profile = Some \<lparr>cp_id = js ''c1'', cp_name = Some (js ''Acme''),
                            cp_contact_email = Some (js ''a@b.co''), cp_description = None,
                            cp_sector = None, cp_logo_url = Some (js ''old.png'')\<rparr>,
                    page_uploading = False,
                    form_values = \<lparr>name = js ''Acme'', contact_email = js ''a@b.co'',
                                   description = Some [], sector = Some []\<rparr>\<rparr>)))
      = [Defined (js ''old.png'')]
   \<and> page_profile
        \<lparr>page_loading = False, page_profile = None, page_uploading = False,
         form_values = \<lparr>name = [], contact_email = [], description = Some [],
                        sector = Some []\<rparr>\<rparr> = None
   \<and> fst (handleLogoChange (Some \<lparr>u_id = js ''u1'', user_metadata_role = Some Company\<rparr>)
             append 7 (Reply () None) (Reply () None) \<lparr>file_name = js ''logo.png''\<rparr>
             \<lparr>page_loading = False, page_profile = None, page_uploading = False,
              form_values = \<lparr>name = [], contact_email = [], description = Some [],
                             sector = Some []\<rparr>\<rparr>)
      = \<lparr>page_loading = False, page_profile = None, page_uploading = False,
         form_values = \<lparr>name = [], contact_email = [], description = Some [],
                        sector = Some []\<rparr>\<rparr>"
  using logo_and_form_updates_separate [where st = "\<lparr>page_loading = False,
      page_profile = Some \<lparr>cp_id = js ''c1'', cp_name = Some (js ''Acme''),
                            cp_contact_email = Some (js ''a@b.co''), cp_description = None,
                            cp_sector = None, cp_logo_url = Some (js ''old.png'')\<rparr>,
      page_uploading = False,
      form_values = \<lparr>name = js ''Acme'', contact_email = js ''a@b.co'',
                     description = Some [], sector = Some []\<rparr>\<rparr>"
      and p = "\<lparr>cp_id = js ''c1'', cp_name = Some (js ''Acme''),
           cp_contact_email = Some (js ''a@b.co''), cp_description = None,
           cp_sector = None, cp_logo_url = Some (js ''old.png'')\<rparr>"
      and u = "\<lparr>u_id = js ''u1'', user_metadata_role = Some Company\<rparr>"
      and update_reply = "Reply () None" and reload_reply = "Reply None None"
      and d = "\<lparr>name = js ''Acme 2'', contact_email = js ''a@b.co'', description = Some [],
                    sector = Some (js ''IT'')\<rparr>"
      and getPublicUrl = append and now = 7 and f = "\<lparr>file_name = js ''logo.png''\<rparr>"]
    logo_and_form_updates_separate [where st = "\<lparr>page_loading = False, page_profile = None, page_uploading = False,
              form_values = \<lparr>name = [], contact_email = [], description = Some [],
                             sector = Some []\<rparr>\<rparr>"
      and u = "\<lparr>u_id = js ''u1'', user_metadata_role = Some Company\<rparr>"
      and getPublicUrl = append and now = 7 and f = "\<lparr>file_name = js ''logo.png''\<rparr>"
      and x = "()" and y = "()"]
  by (simp add: of_nullable_def)

section \<open>The upload path\<close>

text \<open>
  C9: without a signed-in user \<^verbatim>\<open>uploadFile\<close> throws before any call; with a user
  it issues one upload, whose path is the user's id, a slash, and the file name, which
  itself starts with the user's id and a slash: the path begins with the id segment
  twice.
\<close>

theorem uploadFile_path_scoped:
  "uploadFile None getPublicUrl now r f bucket = (Inl (Error (js ''No user found'')), [])
   \<and> (\<exists>filePath.
        calls (snd (uploadFile (Some u) getPublicUrl now r f bucket))
          = [Storage_upload bucket filePath f]
        \<and> filePath = u_id u @ js ''/'' @ (u_id u @ js ''/'' @ number_toString now @ js ''.''
                        @ last (split_str (of_char CHR ''.'') (file_name f)))
        \<and> prefix (u_id u @ js ''/'' @ u_id u @ js ''/'') filePath)"
  by (simp add: calls_uploadFile) (simp add: uploadFile_def)

text \<open>An upload on concrete inputs, with concatenation for the public URL.\<close>

lemma uploadFile_example:
  "uploadFile (Some \<lparr>u_id = js ''u1'', user_metadata_role = Some Company\<rparr>) append 1730000000123
     (Reply () None) \<lparr>file_name = js ''logo.final.png''\<rparr> (js ''logos'')
   = (Inr (js ''logosu1/u1/1730000000123.png''),
      [Call (Storage_upload (js ''logos'') (js ''u1/u1/1730000000123.png'')
         \<lparr>file_name = js ''logo.final.png''\<rparr>)])"
  by (simp add: uploadFile_def Let_def pop_def template_def number_toString_def js_Cons digit_def)

section \<open>The hook of the context\<close>

text \<open>
  C10: when the context value is undefined, \<^verbatim>\<open>useAuth\<close> throws; directly inside an
  \<^verbatim>\<open>AuthProvider\<close> it returns the provider's value.
\<close>

theorem useAuth_outside_provider_throws:
  "(useContext None providers = None \<longrightarrow>
      useAuth providers = Inl (Error (js ''useAuth must be used within an AuthProvider'')))
   \<and> useAuth (AuthProvider val providers) = Inr val"
  by (simp add: useAuth_def useContext_def AuthProvider_def)

theorem useAuth_outside_provider_throws_witness:
  "useContext None ([] :: auth_state option list) = None
   \<and> useAuth [] = Inl (Error (js ''useAuth must be used within an AuthProvider''))"
  using useAuth_outside_provider_throws [of "[]"]
  by (simp add: useContext_def)

end
